theory Spec2Isabelle
  imports Complex_Main "HOL-Library.Sublist" "HOL-Library.Multiset"
begin

section \<open>Keck NIRSPEC spectra (muler/nirspec.py)\<close>

text \<open>
  A shallow embedding of \<^verbatim>\<open>muler/nirspec.py\<close>: the class \<^verbatim>\<open>KeckNIRSPECSpectrum\<close>
  (one echelle order read from an NSDRP flux table) and the class
  \<^verbatim>\<open>KeckNIRSPECSpectrumList\<close> (an ordered list of orders).

  Modelling decisions.
  \<^item> Paths are Python strings restricted to ASCII, modelled as \<open>string\<close>.
  \<^item> A float64 sample is not-a-number, an infinity or a finite value, the real number it
    stands for. An arithmetic operation on finite samples returns the exact result rounded
    to float64; the rounding is a parameter of the model, a function from the reals to the
    samples that may return an infinity on overflow. The sign of zero and physical units are
    not modelled.
  \<^item> The file system is a partial map from paths to FITS files. A file that exists is
    taken to be a well-formed NSDRP product: a primary header and a binary table whose rows
    hold the five columns the loader reads.
  \<^item> Exceptions are values of the type \<open>error\<close>; a function that can raise returns
    \<open>error + 'a\<close>.
  \<^item> In-place mutation of a list of orders is modelled by returning the updated list.
\<close>

subsection \<open>Python strings\<close>

text \<open>\<^verbatim>\<open>sub in s\<close>: substring test.\<close>

fun contains :: "string \<Rightarrow> string \<Rightarrow> bool" where
  "contains sub [] = (sub = [])"
| "contains sub (c # cs) = (prefix sub (c # cs) \<or> contains sub cs)"

text \<open>\<^verbatim>\<open>file.split("/")[-1]\<close>: the text after the last slash, the whole string when there is none.\<close>

definition basename :: "string \<Rightarrow> string" where
  "basename file = rev (takeWhile (\<lambda>c. c \<noteq> CHR ''/'') (rev file))"

text \<open>\<^verbatim>\<open>s.split(sep)[0]\<close> for a non-empty separator: the text before the first occurrence
  of \<open>sep\<close>, the whole string when there is none.\<close>

fun split_first :: "string \<Rightarrow> string \<Rightarrow> string" where
  "split_first sep [] = []"
| "split_first sep (c # cs) = (if prefix sep (c # cs) then [] else c # split_first sep cs)"

text \<open>\<^verbatim>\<open>s[-2:]\<close>: the last two characters, or all of \<open>s\<close> when it is shorter.\<close>

definition last_two :: "string \<Rightarrow> string" where
  "last_two s = drop (length s - 2) s"

text \<open>\<^verbatim>\<open>s.replace(old, new)\<close>: every non-overlapping occurrence, left to right. With an empty
  \<open>old\<close>, Python inserts \<open>new\<close> before every character and at the end.\<close>

function replace :: "string \<Rightarrow> string \<Rightarrow> string \<Rightarrow> string" where
  "replace [] new s = new @ concat (map (\<lambda>c. c # new) s)"
| "replace (a # old) new [] = []"
| "replace (a # old) new (c # cs) =
     (if prefix (a # old) (c # cs) then new @ replace (a # old) new (drop (length old) cs)
      else c # replace (a # old) new cs)"
  by pat_completeness auto
termination
  by (relation "measure (\<lambda>(old, new, s). length s)") auto

text \<open>\<^verbatim>\<open>int(s)\<close> in base ten on ASCII text: optional surrounding whitespace, an optional
  sign, then decimal digits that may be separated by single underscores.\<close>

text \<open>The whitespace that \<^verbatim>\<open>int\<close> skips at both ends of an ASCII string: the space and the
  control characters 0x09 to 0x0D.\<close>

definition isspace :: "char \<Rightarrow> bool" where
  "isspace c = (c \<in> set [CHR '' '', CHR 0x09, CHR 0x0A, CHR 0x0B, CHR 0x0C, CHR 0x0D])"

definition strip :: "string \<Rightarrow> string" where
  "strip s = rev (dropWhile isspace (rev (dropWhile isspace s)))"

definition digit_value :: "char \<Rightarrow> int option" where
  "digit_value c = map_of [(CHR ''0'', 0), (CHR ''1'', 1), (CHR ''2'', 2), (CHR ''3'', 3),
     (CHR ''4'', 4), (CHR ''5'', 5), (CHR ''6'', 6), (CHR ''7'', 7), (CHR ''8'', 8),
     (CHR ''9'', 9)] c"

fun digits_tail :: "int \<Rightarrow> string \<Rightarrow> int option" where
  "digits_tail acc [] = Some acc"
| "digits_tail acc (c # cs) =
     (if c = CHR ''_'' then
        (case cs of [] \<Rightarrow> None
         | d # _ \<Rightarrow> if digit_value d = None then None else digits_tail acc cs)
      else
        (case digit_value c of None \<Rightarrow> None
         | Some v \<Rightarrow> digits_tail (10 * acc + v) cs))"

definition unsigned_int :: "string \<Rightarrow> int option" where
  "unsigned_int body =
     (case body of [] \<Rightarrow> None
      | c # cs \<Rightarrow> (case digit_value c of None \<Rightarrow> None | Some v \<Rightarrow> digits_tail v cs))"

definition py_int :: "string \<Rightarrow> int option" where
  "py_int s =
     (case strip s of
        [] \<Rightarrow> None
      | c # cs \<Rightarrow>
          if c = CHR ''-'' then map_option uminus (unsigned_int cs)
          else if c = CHR ''+'' then unsigned_int cs
          else unsigned_int (c # cs))"

subsection \<open>Float64 samples\<close>

datatype float64 = NaN | NInf | Fin real | PInf

definition isnan :: "float64 \<Rightarrow> bool" where
  "isnan x = (x = NaN)"

text \<open>\<^verbatim>\<open>x <= 0\<close> on a float64: false for not-a-number.\<close>

fun le_zero :: "float64 \<Rightarrow> bool" where
  "le_zero NaN = False"
| "le_zero NInf = True"
| "le_zero (Fin r) = (r \<le> 0)"
| "le_zero PInf = False"

subsection \<open>Data model\<close>

datatype error =
    AssertionError string
  | ValueError
  | KeyError string
  | IndexError

type_synonym header = "(string \<times> string) list"

datatype wcs = WCS header

text \<open>A value of the metadata dictionary, and the spectrum that carries the dictionary.
  The fields of a spectrum are the arguments of the base constructor.\<close>

text \<open>The selector of the mask is \<open>mask_array\<close>, and the methods \<^verbatim>\<open>divide\<close> and \<^verbatim>\<open>normalize\<close> are
  \<open>divide_scalar\<close> and \<open>normalize_list\<close> below: the plain names are constants of the logic.\<close>

datatype meta_value =
    MArray "int list"
  | MStr string
  | MInt int
  | MHeader "header option"
  | MSpectrum spectrum
and spectrum =
  Spectrum (spectral_axis: "float64 list") (flux: "float64 list")
    (uncertainty: "float64 list option") (mask_array: "bool list option")
    (wcs: "wcs option") (meta: "string \<Rightarrow> meta_value option")

text \<open>One row of the binary table extension of a flux-table file, columns
  \<^verbatim>\<open>wave (A)\<close>, \<^verbatim>\<open>flux (cnts)\<close>, \<^verbatim>\<open>noise (cnts)\<close>, \<^verbatim>\<open>sky (cnts)\<close> and \<^verbatim>\<open>col\<close>.\<close>

record table_row =
  wave :: float64
  flux_cnts :: float64
  noise_cnts :: float64
  sky_cnts :: float64
  col :: int

record fits_file =
  primary_header :: header
  table :: "table_row list"

type_synonym filesystem = "string \<Rightarrow> fits_file option"

subsection \<open>KeckNIRSPECSpectrum\<close>

text \<open>Modelled from the spec: the constructor of the base class \<^verbatim>\<open>EchelleSpectrum\<close>
  (\<^verbatim>\<open>muler/echelle.py\<close> and the spectral-container library under it), which is a plain
  pass-through of the arrays the caller supplies. Absent metadata is the empty dictionary.\<close>

definition EchelleSpectrum_init ::
  "float64 list \<Rightarrow> float64 list \<Rightarrow> bool list option \<Rightarrow> wcs option \<Rightarrow> float64 list option \<Rightarrow>
   (string \<Rightarrow> meta_value option) \<Rightarrow> spectrum" where
  "EchelleSpectrum_init spectral_axis' flux' mask' wcs' uncertainty' meta' =
     Spectrum spectral_axis' flux' uncertainty' mask' wcs' meta'"

text \<open>The mask of lines 87-89:
  \<^verbatim>\<open>np.isnan(flux) | np.isnan(uncertainty.array) | (uncertainty.array <= 0)\<close>.\<close>

definition bad_sample :: "float64 \<Rightarrow> float64 \<Rightarrow> bool" where
  "bad_sample f u = (isnan f \<or> isnan u \<or> le_zero u)"

definition build_mask :: "float64 list \<Rightarrow> float64 list \<Rightarrow> bool list" where
  "build_mask flux' unc = map (\<lambda>(f, u). bad_sample f u) (zip flux' unc)"

text \<open>\<^verbatim>\<open>KeckNIRSPECSpectrum(file=file)\<close>, lines 64-133.\<close>

definition KeckNIRSPECSpectrum_init :: "filesystem \<Rightarrow> string \<Rightarrow> error + spectrum" where
  "KeckNIRSPECSpectrum_init fs file =
     (let file_basename = basename file in
      if take 3 file_basename \<noteq> ''NS.'' then
        Inl (AssertionError ''Only NSDRP spectra are currently supported'')
      else if \<not> contains ''_flux_tbl.fits'' file_basename then
        Inl (AssertionError ''Only fits table files are currently supported'')
      else
        let file_stem = split_first ''_flux'' file_basename in
        case py_int (last_two file_stem) of
          None \<Rightarrow> Inl ValueError
        | Some grating_order \<Rightarrow>
            (case fs file of
               None \<Rightarrow> Inl (AssertionError ''The file must exist'')
             | Some hdu \<Rightarrow>
                 let hdu0 = table hdu;
                     lamb = map wave hdu0;
                     flux' = map flux_cnts hdu0;
                     unc = map noise_cnts hdu0;
                     mask' = build_mask flux' unc;
                     fits_with_full_header =
                       replace ''_flux_tbl.'' ''_flux.'' (replace ''/fitstbl/'' ''/fits/'' file);
                     hdr = map_option primary_header (fs fits_with_full_header);
                     wcs' = map_option WCS hdr;
                     meta_dict = [''x_values'' \<mapsto> MArray (map col hdu0),
                                  ''pipeline'' \<mapsto> MStr ''NSDRP'',
                                  ''m'' \<mapsto> MInt grating_order,
                                  ''header'' \<mapsto> MHeader hdr];
                     sky_spectrum =
                       EchelleSpectrum_init lamb (map sky_cnts hdu0) (Some mask') None
                         (Some unc) meta_dict
                 in Inr (EchelleSpectrum_init lamb flux' (Some mask') wcs' (Some unc)
                           (meta_dict(''sky'' \<mapsto> MSpectrum sky_spectrum)))))"

text \<open>The properties of lines 137-150: a dictionary lookup that raises \<^verbatim>\<open>KeyError\<close> on a
  missing key.\<close>

definition lookup :: "spectrum \<Rightarrow> string \<Rightarrow> error + meta_value" where
  "lookup self key = (case meta self key of None \<Rightarrow> Inl (KeyError key) | Some v \<Rightarrow> Inr v)"

definition pipeline :: "spectrum \<Rightarrow> error + meta_value" where
  "pipeline self = lookup self ''pipeline''"

definition sky :: "spectrum \<Rightarrow> error + meta_value" where
  "sky self = lookup self ''sky''"

definition flat :: "spectrum \<Rightarrow> error + meta_value" where
  "flat self = lookup self ''flat''"

text \<open>The \<^verbatim>\<open>wavelength\<close> property of the base class: the spectral axis (already in Angstrom).\<close>

definition wavelength :: "spectrum \<Rightarrow> float64 list" where
  "wavelength self = spectral_axis self"

text \<open>The metadata entry \<^verbatim>\<open>m\<close>, \<^verbatim>\<open>self.meta["m"]\<close>.\<close>

definition order_number :: "spectrum \<Rightarrow> error + meta_value" where
  "order_number self = lookup self ''m''"

subsection \<open>Float64 arithmetic\<close>

text \<open>The operations take the rounding \<open>rnd\<close> of the machine, which maps the exact result of
  an operation on finite samples to the float64 returned. Negation is exact.\<close>

fun fneg :: "float64 \<Rightarrow> float64" where
  "fneg NaN = NaN"
| "fneg NInf = PInf"
| "fneg PInf = NInf"
| "fneg (Fin a) = Fin (- a)"

fun fadd :: "(real \<Rightarrow> float64) \<Rightarrow> float64 \<Rightarrow> float64 \<Rightarrow> float64" where
  "fadd rnd NaN y = NaN"
| "fadd rnd x NaN = NaN"
| "fadd rnd (Fin a) (Fin b) = rnd (a + b)"
| "fadd rnd (Fin a) y = y"
| "fadd rnd x (Fin b) = x"
| "fadd rnd x y = (if x = y then x else NaN)"

definition fsub :: "(real \<Rightarrow> float64) \<Rightarrow> float64 \<Rightarrow> float64 \<Rightarrow> float64" where
  "fsub rnd x y = fadd rnd x (fneg y)"


text \<open>The order in which \<^verbatim>\<open>numpy\<close> sorts float64 values: by value, not-a-number last. (The
  comparison operators of the language are \<open>le_zero\<close> and the like, not this order.)\<close>

instantiation float64 :: linorder
begin

fun less_eq_float64 :: "float64 \<Rightarrow> float64 \<Rightarrow> bool" where
  "less_eq_float64 NInf y = True"
| "less_eq_float64 x NaN = True"
| "less_eq_float64 (Fin a) (Fin b) = (a \<le> b)"
| "less_eq_float64 (Fin a) PInf = True"
| "less_eq_float64 PInf PInf = True"
| "less_eq_float64 x y = False"

definition less_float64 :: "float64 \<Rightarrow> float64 \<Rightarrow> bool" where
  "less_float64 x y = (x \<le> y \<and> \<not> y \<le> x)"

instance
proof
  fix x y z :: float64
  show "(x < y) = (x \<le> y \<and> \<not> y \<le> x)"
    by (simp add: less_float64_def)
  show "x \<le> x"
    by (cases x) simp_all
  show "x \<le> y \<Longrightarrow> y \<le> z \<Longrightarrow> x \<le> z"
    by (cases x; cases y; cases z) simp_all
  show "x \<le> y \<Longrightarrow> y \<le> x \<Longrightarrow> x = y"
    by (cases x; cases y) simp_all
  show "x \<le> y \<or> y \<le> x"
    by (cases x; cases y) auto
qed

end


subsection \<open>Arithmetic of the base class\<close>

text \<open>The rounding to float64, how the base arithmetic combines uncertainties and masks, and
  what it does with an operand that is not a spectrum are parameters of the model: the first
  is the machine's, the others are left to the spectral-container library.\<close>

record base_arithmetic =
  round64 :: "real \<Rightarrow> float64"
  subtract_uncertainty :: "spectrum \<Rightarrow> spectrum \<Rightarrow> float64 list option"
  subtract_mask :: "spectrum \<Rightarrow> spectrum \<Rightarrow> bool list option"
  subtract_other :: "spectrum \<Rightarrow> meta_value \<Rightarrow> error + spectrum"
  divide_uncertainty :: "spectrum \<Rightarrow> float64 \<Rightarrow> float64 list option"
  divide_mask :: "spectrum \<Rightarrow> float64 \<Rightarrow> bool list option"

text \<open>Modelled from the spec: \<^verbatim>\<open>subtract(operand, handle_meta="first_found")\<close> of the base
  class, which is not in \<^verbatim>\<open>nirspec.py\<close>: an element-wise subtraction of the operand's flux
  from the flux of \<open>self\<close>, the uncertainty and mask combined by the base arithmetic, the
  metadata of the first operand kept. Element-wise means sample by sample, so the two flux
  arrays have one length.\<close>

definition subtract :: "base_arithmetic \<Rightarrow> spectrum \<Rightarrow> meta_value \<Rightarrow> error + spectrum" where
  "subtract ar self operand =
     (case operand of
        MSpectrum other \<Rightarrow>
          if length (flux self) = length (flux other) then
            Inr (Spectrum (spectral_axis self)
                   (map (\<lambda>(a, b). fsub (round64 ar) a b) (zip (flux self) (flux other)))
                   (subtract_uncertainty ar self other) (subtract_mask ar self other)
                   (wcs self) (meta self))
          else Inl ValueError
      | _ \<Rightarrow> subtract_other ar self operand)"


text \<open>\<^verbatim>\<open>sky_subtract\<close>, lines 168-187. The result is the records written to the log and
  the value returned or the exception raised.\<close>

datatype log_record = LogWarning string | LogError string

definition sky_subtract ::
  "base_arithmetic \<Rightarrow> spectrum \<Rightarrow> bool \<Rightarrow> log_record list \<times> (error + spectrum)" where
  "sky_subtract ar self force =
     (if force then
        ([LogWarning ''NIRSPEC data are already natively sky subtracted! Proceeding with a forced sky subtraction anyways...''],
         case sky self of Inl e \<Rightarrow> Inl e | Inr operand \<Rightarrow> subtract ar self operand)
      else
        ([LogError ''NIRSPEC data are already natively sky subtracted! To proceed anyway, state `force=True`.''],
         Inr self))"

subsection \<open>KeckNIRSPECSpectrumList\<close>

text \<open>\<^verbatim>\<open>read\<close>, lines 199-215: the loop over the paths, \<open>list_out\<close> growing by one spectrum
  per path; an assertion or a constructor that fails ends the call.\<close>

fun read_loop :: "filesystem \<Rightarrow> string list \<Rightarrow> spectrum list \<Rightarrow> error + spectrum list" where
  "read_loop fs [] list_out = Inr list_out"
| "read_loop fs (file # files) list_out =
     (if \<not> contains ''.flux_tbl.fits'' file then Inl (AssertionError [])
      else case KeckNIRSPECSpectrum_init fs file of
             Inl e \<Rightarrow> Inl e
           | Inr spec \<Rightarrow> read_loop fs files (list_out @ [spec]))"

definition read :: "filesystem \<Rightarrow> string list \<Rightarrow> error + spectrum list" where
  "read fs files = read_loop fs files []"



text \<open>\<^verbatim>\<open>np.hstack\<close> of a list of one-dimensional arrays: their concatenation; a
  \<^verbatim>\<open>ValueError\<close> when the list is empty.\<close>

definition hstack :: "'a list list \<Rightarrow> error + 'a list" where
  "hstack arrays = (if arrays = [] then Inl ValueError else Inr (concat arrays))"

text \<open>\<^verbatim>\<open>stitch\<close>, lines 264-273. The spectrum is built from the two arrays alone: no
  uncertainty, no mask, no coordinate system and an empty metadata dictionary.\<close>

definition stitch :: "spectrum list \<Rightarrow> log_record list \<times> (error + spectrum)" where
  "stitch self =
     ([LogWarning ''Experimental method''],
      case hstack (map (\<lambda>i. wavelength (self ! i)) [0..<length self]) of
        Inl e \<Rightarrow> Inl e
      | Inr wls \<Rightarrow>
          (case hstack (map (\<lambda>i. flux (self ! i)) [0..<length self]) of
             Inl e \<Rightarrow> Inl e
           | Inr fluxes \<Rightarrow>
               Inr (EchelleSpectrum_init wls fluxes None None None Map.empty)))"

subsection \<open>Paths the loader accepts\<close>

text \<open>The checks of the constructor on a path (lines 65-76): the base name starts with
  \<^verbatim>\<open>NS.\<close> and contains \<^verbatim>\<open>_flux_tbl.fits\<close>, the last two characters of the stem are read
  by \<^verbatim>\<open>int\<close>, and the file exists.\<close>

definition loadable :: "filesystem \<Rightarrow> string \<Rightarrow> bool" where
  "loadable fs file =
     (take 3 (basename file) = ''NS.'' \<and> contains ''_flux_tbl.fits'' (basename file) \<and>
      py_int (last_two (split_first ''_flux'' (basename file))) \<noteq> None \<and> fs file \<noteq> None)"

text \<open>A path is valid for \<^verbatim>\<open>read\<close> when it passes the assertion of line 212, on the
  substring \<^verbatim>\<open>.flux_tbl.fits\<close> of the whole path, and the checks of the constructor.\<close>

definition valid_path :: "filesystem \<Rightarrow> string \<Rightarrow> bool" where
  "valid_path fs file = (contains ''.flux_tbl.fits'' file \<and> loadable fs file)"

subsection \<open>The order characters in the words of the specification\<close>

text \<open>The specification takes the order number from the last two characters of the part of
  the base name that precedes \<^verbatim>\<open>_flux_tbl\<close>.\<close>

definition spec_order_chars :: "string \<Rightarrow> string" where
  "spec_order_chars file = last_two (split_first ''_flux_tbl'' (basename file))"

subsection \<open>Example data\<close>

definition ex_rows :: "table_row list" where
  "ex_rows =
     [\<lparr>wave = Fin 21000, flux_cnts = Fin 10, noise_cnts = Fin 2, sky_cnts = Fin 3, col = 0\<rparr>,
      \<lparr>wave = Fin 21001, flux_cnts = NaN, noise_cnts = Fin 2, sky_cnts = Fin 4, col = 1\<rparr>,
      \<lparr>wave = Fin 21002, flux_cnts = Fin 7, noise_cnts = Fin 0, sky_cnts = Fin 5, col = 2\<rparr>]"

definition ex_file :: string where
  "ex_file = ''/data/fitstbl/NS.20150107.12345_63_flux_tbl.fits''"

definition ex_header :: header where
  "ex_header = [(''MJD-OBS'', ''57029.5'')]"

definition ex_fs :: filesystem where
  "ex_fs = [''/data/fitstbl/NS.20150107.12345_63_flux_tbl.fits'' \<mapsto>
              \<lparr>primary_header = [], table = ex_rows\<rparr>,
            ''/data/fits/NS.20150107.12345_63_flux.fits'' \<mapsto>
              \<lparr>primary_header = ex_header, table = []\<rparr>]"

definition ex_meta :: "string \<Rightarrow> meta_value option" where
  "ex_meta = [''x_values'' \<mapsto> MArray [0, 1, 2], ''pipeline'' \<mapsto> MStr ''NSDRP'',
              ''m'' \<mapsto> MInt 63, ''header'' \<mapsto> MHeader (Some ex_header)]"

definition ex_sky :: spectrum where
  "ex_sky = Spectrum [Fin 21000, Fin 21001, Fin 21002] [Fin 3, Fin 4, Fin 5]
              (Some [Fin 2, Fin 2, Fin 0]) (Some [False, True, True]) None ex_meta"

definition ex_spectrum :: spectrum where
  "ex_spectrum = Spectrum [Fin 21000, Fin 21001, Fin 21002] [Fin 10, NaN, Fin 7]
              (Some [Fin 2, Fin 2, Fin 0]) (Some [False, True, True]) (Some (WCS ex_header))
              (ex_meta(''sky'' \<mapsto> MSpectrum ex_sky))"

text \<open>An arithmetic whose rounding is exact and which keeps the uncertainty and the mask of
  the first operand.\<close>

definition ex_arith :: base_arithmetic where
  "ex_arith = \<lparr>round64 = Fin,
               subtract_uncertainty = (\<lambda>a b. uncertainty a),
               subtract_mask = (\<lambda>a b. mask_array a),
               subtract_other = (\<lambda>a v. Inl ValueError),
               divide_uncertainty = (\<lambda>a x. uncertainty a),
               divide_mask = (\<lambda>a x. mask_array a)\<rparr>"

text \<open>Two paths that pass the assertion of \<^verbatim>\<open>read\<close> and the checks of the constructor.\<close>

definition ex_path63 :: string where
  "ex_path63 = ''/out.flux_tbl.fits/NS.20150107.12345_63_flux_tbl.fits''"

definition ex_path64 :: string where
  "ex_path64 = ''/out.flux_tbl.fits/NS.20150107.12345_64_flux_tbl.fits''"

definition ex_read_fs :: filesystem where
  "ex_read_fs = [''/out.flux_tbl.fits/NS.20150107.12345_63_flux_tbl.fits'' \<mapsto>
                   \<lparr>primary_header = [], table = ex_rows\<rparr>,
                 ''/out.flux_tbl.fits/NS.20150107.12345_64_flux_tbl.fits'' \<mapsto>
                   \<lparr>primary_header = [], table = []\<rparr>]"

text \<open>A file whose base name has \<^verbatim>\<open>_flux\<close> before \<^verbatim>\<open>_flux_tbl\<close>, a file whose order
  characters are not a number, an order whose flux is not-a-number throughout, and a second
  order built from arrays.\<close>

definition ex_odd_file :: string where
  "ex_odd_file = ''/data/NS.12_flux_ab_flux_tbl.fits''"

definition ex_odd_fs :: filesystem where
  "ex_odd_fs = [''/data/NS.12_flux_ab_flux_tbl.fits'' \<mapsto> \<lparr>primary_header = [], table = ex_rows\<rparr>]"


definition ex_bad_file :: string where
  "ex_bad_file = ''/data/fitstbl/NS.20150107.12345_xx_flux_tbl.fits''"


section \<open>Properties\<close>

subsection \<open>What a successful construction returns\<close>

lemma init_Inr_iff:
  "(\<exists>c. KeckNIRSPECSpectrum_init fs file = Inr c) = loadable fs file"
  by (auto simp: KeckNIRSPECSpectrum_init_def loadable_def Let_def split: option.splits)

lemma init_InrD:
  assumes "KeckNIRSPECSpectrum_init fs file = Inr c"
  shows "\<exists>hdu n. fs file = Some hdu \<and>
           py_int (last_two (split_first ''_flux'' (basename file))) = Some n \<and>
           spectral_axis c = map wave (table hdu) \<and>
           flux c = map flux_cnts (table hdu) \<and>
           uncertainty c = Some (map noise_cnts (table hdu)) \<and>
           mask_array c =
             Some (build_mask (map flux_cnts (table hdu)) (map noise_cnts (table hdu))) \<and>
           meta c ''m'' = Some (MInt n) \<and>
           meta c ''pipeline'' = Some (MStr ''NSDRP'') \<and>
           meta c ''flat'' = None \<and>
           (\<exists>s. meta c ''sky'' = Some (MSpectrum s) \<and>
                spectral_axis s = map wave (table hdu) \<and>
                flux s = map sky_cnts (table hdu) \<and>
                uncertainty s = Some (map noise_cnts (table hdu)) \<and>
                mask_array s = mask_array c \<and> wcs s = None \<and>
                meta s ''sky'' = None \<and> meta s ''flat'' = None \<and>
                meta s ''m'' = Some (MInt n) \<and>
                meta s ''pipeline'' = Some (MStr ''NSDRP''))"
  using assms
  by (auto simp: KeckNIRSPECSpectrum_init_def EchelleSpectrum_init_def Let_def
      split: option.splits if_splits)

lemma ex_stem: "split_first ''_flux'' (basename ex_file) = ''NS.20150107.12345_63''"
  by (simp add: ex_file_def basename_def)

lemma ex_order: "py_int (last_two (split_first ''_flux'' (basename ex_file))) = Some 63"
  by (simp add: ex_stem last_two_def py_int_def strip_def isspace_def unsigned_int_def
      digit_value_def)

lemma ex_header_path:
  "replace ''_flux_tbl.'' ''_flux.'' (replace ''/fitstbl/'' ''/fits/'' ex_file) =
     ''/data/fits/NS.20150107.12345_63_flux.fits''"
  by (simp add: ex_file_def)

lemma ex_init: "KeckNIRSPECSpectrum_init ex_fs ex_file = Inr ex_spectrum"
  unfolding KeckNIRSPECSpectrum_init_def Let_def ex_order ex_header_path
  by (simp add: ex_file_def basename_def ex_fs_def ex_rows_def build_mask_def bad_sample_def
      isnan_def EchelleSpectrum_init_def ex_spectrum_def ex_sky_def ex_meta_def)

subsection \<open>The mask\<close>

text \<open>C2. A spectrum constructed from a flux-table file has a mask and an uncertainty of the
  length of its flux, and the mask is true at exactly the samples whose flux is
  not-a-number, whose uncertainty is not-a-number, or whose uncertainty is at most zero.\<close>

theorem mask_marks_bad_samples:
  assumes "KeckNIRSPECSpectrum_init fs file = Inr c"
  shows "\<exists>ms us. mask_array c = Some ms \<and> uncertainty c = Some us \<and>
           length ms = length (flux c) \<and> length us = length (flux c) \<and>
           (\<forall>i<length (flux c).
              ms ! i = (isnan (flux c ! i) \<or> isnan (us ! i) \<or> le_zero (us ! i)))"
  using init_InrD [OF assms]
  by (auto simp: build_mask_def bad_sample_def)

theorem mask_marks_bad_samples_witness:
  "KeckNIRSPECSpectrum_init ex_fs ex_file = Inr ex_spectrum \<and>
   mask_array ex_spectrum = Some [False, True, True] \<and>
   flux ex_spectrum = [Fin 10, NaN, Fin 7] \<and>
   uncertainty ex_spectrum = Some [Fin 2, Fin 2, Fin 0]"
  using mask_marks_bad_samples [OF ex_init] ex_init
  by (simp add: ex_spectrum_def)

subsection \<open>Lengths\<close>

text \<open>C3. A spectrum constructed from a flux-table file whose table has N rows has a
  wavelength, a flux, an uncertainty and a mask of length N, and so has its sky spectrum.\<close>

theorem parallel_sequences_same_length:
  assumes "KeckNIRSPECSpectrum_init fs file = Inr c" and "fs file = Some hdu"
  shows "length (spectral_axis c) = length (table hdu) \<and>
         length (flux c) = length (table hdu) \<and>
         map_option length (uncertainty c) = Some (length (table hdu)) \<and>
         map_option length (mask_array c) = Some (length (table hdu)) \<and>
         (\<exists>s. sky c = Inr (MSpectrum s) \<and>
              length (spectral_axis s) = length (table hdu) \<and>
              length (flux s) = length (table hdu) \<and>
              map_option length (uncertainty s) = Some (length (table hdu)) \<and>
              map_option length (mask_array s) = Some (length (table hdu)))"
  using init_InrD [OF assms(1)] assms(2)
  by (auto simp: build_mask_def sky_def lookup_def)

theorem parallel_sequences_same_length_witness:
  "KeckNIRSPECSpectrum_init ex_fs ex_file = Inr ex_spectrum \<and>
   ex_fs ex_file = Some \<lparr>primary_header = [], table = ex_rows\<rparr> \<and>
   length ex_rows = 3 \<and> length (flux ex_spectrum) = 3 \<and>
   length (spectral_axis ex_spectrum) = 3 \<and> length (flux ex_sky) = 3"
proof -
  have h: "ex_fs ex_file = Some \<lparr>primary_header = [], table = ex_rows\<rparr>"
    by (simp add: ex_fs_def ex_file_def)
  from parallel_sequences_same_length [OF ex_init h] ex_init h show ?thesis
    by (simp add: ex_rows_def ex_sky_def)
qed

subsection \<open>Sky subtraction without force\<close>

text \<open>C5. For every spectrum, \<^verbatim>\<open>sky_subtract()\<close> without force logs an error, raises
  nothing and returns the spectrum itself, so flux, mask and uncertainty are those of the
  input, and a second call on the result returns it again.\<close>

theorem sky_subtract_default_is_identity:
  "fst (sky_subtract ar self False) =
     [LogError ''NIRSPEC data are already natively sky subtracted! To proceed anyway, state `force=True`.''] \<and>
   (\<exists>r. snd (sky_subtract ar self False) = Inr r \<and> r = self \<and>
        flux r = flux self \<and> mask_array r = mask_array self \<and>
        uncertainty r = uncertainty self \<and>
        snd (sky_subtract ar r False) = Inr r)"
  by (simp add: sky_subtract_def)

subsection \<open>The flat property\<close>

text \<open>C9. On a spectrum constructed from a file, the property \<^verbatim>\<open>flat\<close> raises
  \<^verbatim>\<open>KeyError\<close>: the loader stores no \<^verbatim>\<open>flat\<close> entry.\<close>

theorem flat_never_populated:
  assumes "KeckNIRSPECSpectrum_init fs file = Inr c"
  shows "flat c = Inl (KeyError ''flat'')"
  using init_InrD [OF assms] by (auto simp: flat_def lookup_def)

theorem flat_never_populated_witness:
  "KeckNIRSPECSpectrum_init ex_fs ex_file = Inr ex_spectrum \<and>
   flat ex_spectrum = Inl (KeyError ''flat'')"
  using flat_never_populated [OF ex_init] ex_init by simp

subsection \<open>Nesting of the sky spectrum\<close>

text \<open>C10. The sky spectrum of a spectrum constructed from a file carries the metadata as
  they were before the \<^verbatim>\<open>sky\<close> entry was set: it has no \<^verbatim>\<open>sky\<close> entry, so its property
  \<^verbatim>\<open>sky\<close> raises \<^verbatim>\<open>KeyError\<close>, while its \<^verbatim>\<open>pipeline\<close> and its \<^verbatim>\<open>m\<close> are there and equal
  those of the primary spectrum.\<close>

theorem sky_nesting_one_level:
  assumes "KeckNIRSPECSpectrum_init fs file = Inr c"
  shows "\<exists>s. sky c = Inr (MSpectrum s) \<and> meta s ''sky'' = None \<and>
             sky s = Inl (KeyError ''sky'') \<and>
             pipeline s = Inr (MStr ''NSDRP'') \<and> pipeline s = pipeline c \<and>
             (\<exists>n. lookup s ''m'' = Inr (MInt n)) \<and> lookup s ''m'' = lookup c ''m''"
  using init_InrD [OF assms] by (auto simp: sky_def pipeline_def lookup_def)

theorem sky_nesting_one_level_witness:
  "KeckNIRSPECSpectrum_init ex_fs ex_file = Inr ex_spectrum \<and>
   sky ex_spectrum = Inr (MSpectrum ex_sky) \<and> sky ex_sky = Inl (KeyError ''sky'') \<and>
   pipeline ex_sky = Inr (MStr ''NSDRP'') \<and> lookup ex_sky ''m'' = Inr (MInt 63)"
  using sky_nesting_one_level [OF ex_init] ex_init
  by (simp add: sky_def pipeline_def lookup_def ex_spectrum_def ex_sky_def ex_meta_def)

subsection \<open>Reading a list of files\<close>

lemma read_loop_valid:
  "\<forall>p\<in>set files. valid_path fs p \<Longrightarrow>
   \<exists>cs. read_loop fs files acc = Inr (acc @ cs) \<and> length cs = length files \<and>
        (\<forall>i<length files. KeckNIRSPECSpectrum_init fs (files ! i) = Inr (cs ! i))"
proof (induction files arbitrary: acc)
  case Nil
  then show ?case by simp
next
  case (Cons p ps)
  from Cons.prems have "contains ''.flux_tbl.fits'' p" and "loadable fs p"
    by (simp_all add: valid_path_def)
  then obtain c where c: "KeckNIRSPECSpectrum_init fs p = Inr c"
    using init_Inr_iff by blast
  from Cons.prems have "\<forall>q\<in>set ps. valid_path fs q" by simp
  from Cons.IH [OF this, of "acc @ [c]"] obtain cs where
    cs: "read_loop fs ps (acc @ [c]) = Inr ((acc @ [c]) @ cs)" "length cs = length ps"
      "\<forall>i<length ps. KeckNIRSPECSpectrum_init fs (ps ! i) = Inr (cs ! i)"
    by blast
  have "\<forall>i<length (p # ps). KeckNIRSPECSpectrum_init fs ((p # ps) ! i) = Inr ((c # cs) ! i)"
    using c cs(3) by (auto simp: nth_Cons split: nat.splits)
  moreover have "read_loop fs (p # ps) acc = Inr (acc @ c # cs)"
    using \<open>contains ''.flux_tbl.fits'' p\<close> c cs(1) by simp
  ultimately show ?case
    using cs(2) by (intro exI [of _ "c # cs"]) simp
qed

lemma read_loop_invalid_head:
  assumes "\<not> valid_path fs p"
  shows "\<exists>e. read_loop fs (p # rest) acc = Inl e \<and> read_loop fs [p] [] = Inl e"
proof (cases "contains ''.flux_tbl.fits'' p")
  case False
  then show ?thesis by simp
next
  case True
  with assms have "\<not> loadable fs p" by (simp add: valid_path_def)
  then have "\<nexists>c. KeckNIRSPECSpectrum_init fs p = Inr c"
    using init_Inr_iff by blast
  then obtain e where "KeckNIRSPECSpectrum_init fs p = Inl e"
    by (cases "KeckNIRSPECSpectrum_init fs p") auto
  with True show ?thesis by simp
qed

lemma read_loop_first_invalid:
  "\<forall>q\<in>set pre. valid_path fs q \<Longrightarrow> \<not> valid_path fs p \<Longrightarrow>
   \<exists>e. read_loop fs (pre @ p # post) acc = Inl e \<and> read_loop fs [p] [] = Inl e"
proof (induction pre arbitrary: acc)
  case Nil
  then show ?case using read_loop_invalid_head by simp
next
  case (Cons q qs)
  from Cons.prems have "contains ''.flux_tbl.fits'' q" and "loadable fs q"
    by (simp_all add: valid_path_def)
  then obtain c where c: "KeckNIRSPECSpectrum_init fs q = Inr c"
    using init_Inr_iff by blast
  from Cons.prems have "\<forall>q\<in>set qs. valid_path fs q" and "\<not> valid_path fs p" by simp_all
  from Cons.IH [OF this, of "acc @ [c]"] show ?case
    using \<open>contains ''.flux_tbl.fits'' q\<close> c by simp
qed

text \<open>C1. When every path of the list is valid, \<^verbatim>\<open>read\<close> returns as many spectra as
  there are paths, the spectrum at each index being the one constructed from the path at that
  index. When some path is not valid, \<^verbatim>\<open>read\<close> raises the exception that the first such
  path raises, and returns nothing.\<close>

theorem read_all_or_nothing:
  "((\<forall>p\<in>set files. valid_path fs p) \<longrightarrow>
      (\<exists>cs. read fs files = Inr cs \<and> length cs = length files \<and>
            (\<forall>i<length files. KeckNIRSPECSpectrum_init fs (files ! i) = Inr (cs ! i)))) \<and>
   ((\<exists>p\<in>set files. \<not> valid_path fs p) \<longrightarrow>
      (\<exists>i e. i < length files \<and> \<not> valid_path fs (files ! i) \<and>
             (\<forall>j<i. valid_path fs (files ! j)) \<and>
             read fs [files ! i] = Inl e \<and> read fs files = Inl e))"
proof (intro conjI impI)
  assume "\<forall>p\<in>set files. valid_path fs p"
  from read_loop_valid [OF this, of "[]"]
  show "\<exists>cs. read fs files = Inr cs \<and> length cs = length files \<and>
            (\<forall>i<length files. KeckNIRSPECSpectrum_init fs (files ! i) = Inr (cs ! i))"
    by (simp add: read_def)
next
  assume "\<exists>p\<in>set files. \<not> valid_path fs p"
  from split_list_first_prop [OF this] obtain pre p post where
    files: "files = pre @ p # post" and p: "\<not> valid_path fs p" and
    pre: "\<forall>q\<in>set pre. \<not> \<not> valid_path fs q"
    by blast
  from pre have pre': "\<forall>q\<in>set pre. valid_path fs q" by simp
  from read_loop_first_invalid [OF pre' p, of post "[]"] obtain e where
    e: "read_loop fs (pre @ p # post) [] = Inl e" "read_loop fs [p] [] = Inl e"
    by blast
  have "length pre < length files" by (simp add: files)
  moreover have "files ! length pre = p" by (simp add: files)
  moreover have "\<forall>j<length pre. valid_path fs (files ! j)"
    using pre' by (simp add: files nth_append)
  ultimately show "\<exists>i e. i < length files \<and> \<not> valid_path fs (files ! i) \<and>
             (\<forall>j<i. valid_path fs (files ! j)) \<and>
             read fs [files ! i] = Inl e \<and> read fs files = Inl e"
    using p e by (intro exI [of _ "length pre"] exI [of _ e]) (simp add: read_def files)
qed

lemma ex_valid63: "valid_path ex_read_fs ex_path63"
  by (simp add: valid_path_def loadable_def ex_path63_def ex_read_fs_def basename_def
      last_two_def py_int_def strip_def isspace_def unsigned_int_def digit_value_def)

lemma ex_valid64: "valid_path ex_read_fs ex_path64"
  by (simp add: valid_path_def loadable_def ex_path64_def ex_read_fs_def basename_def
      last_two_def py_int_def strip_def isspace_def unsigned_int_def digit_value_def)

lemma ex_invalid: "\<not> valid_path ex_read_fs ex_file"
  by (simp add: valid_path_def ex_file_def)

theorem read_all_or_nothing_witness:
  "valid_path ex_read_fs ex_path63 \<and> valid_path ex_read_fs ex_path64 \<and>
   \<not> valid_path ex_read_fs ex_file \<and>
   map_sum id length (read ex_read_fs [ex_path63, ex_path64]) = Inr 2 \<and>
   read ex_read_fs [ex_path63, ex_file, ex_path64] = Inl (AssertionError [])"
proof -
  have 1: "\<forall>p\<in>set [ex_path63, ex_path64]. valid_path ex_read_fs p"
    by (simp add: ex_valid63 ex_valid64)
  have 2: "\<exists>p\<in>set [ex_path63, ex_file, ex_path64]. \<not> valid_path ex_read_fs p"
    by (simp add: ex_invalid)
  have 3: "read ex_read_fs [ex_file] = Inl (AssertionError [])"
    by (simp add: read_def ex_file_def)
  from read_all_or_nothing [of "[ex_path63, ex_path64]" ex_read_fs] 1
  have 4: "map_sum id length (read ex_read_fs [ex_path63, ex_path64]) = Inr 2"
    by auto
  from read_all_or_nothing [of "[ex_path63, ex_file, ex_path64]" ex_read_fs] 2
  obtain i e where i: "i < length [ex_path63, ex_file, ex_path64]" and
    nv: "\<not> valid_path ex_read_fs ([ex_path63, ex_file, ex_path64] ! i)" and
    one: "read ex_read_fs [[ex_path63, ex_file, ex_path64] ! i] = Inl e" and
    all: "read ex_read_fs [ex_path63, ex_file, ex_path64] = Inl e"
    by blast
  from i have "i = 0 \<or> i = 1 \<or> i = 2" by auto
  with nv have "i = 1" using ex_valid63 ex_valid64 by auto
  with one 3 have "e = AssertionError []" by simp
  with all 4 show ?thesis
    by (simp add: ex_valid63 ex_valid64 ex_invalid)
qed

text \<open>The assertion of \<^verbatim>\<open>read\<close> looks for \<^verbatim>\<open>.flux_tbl.fits\<close>, with a dot, where the
  constructor looks for \<^verbatim>\<open>_flux_tbl.fits\<close>: a path with the plain NSDRP name, which the
  constructor loads, is not valid for \<^verbatim>\<open>read\<close>.\<close>

lemma read_rejects_nsdrp_name:
  "loadable ex_fs ex_file \<and> read ex_fs [ex_file] = Inl (AssertionError [])"
  using init_Inr_iff [of ex_fs ex_file] ex_init
  by (simp add: read_def ex_file_def)

subsection \<open>Forced sky subtraction\<close>

text \<open>C4. On a spectrum constructed from a file, \<^verbatim>\<open>sky_subtract(force=True)\<close> logs a
  warning and returns a spectrum whose flux is, at every sample (masked or not), the flux of
  the primary minus the flux of its sky spectrum, and whose metadata are those of the
  primary, the first operand.\<close>

theorem forced_sky_subtract:
  assumes "KeckNIRSPECSpectrum_init fs file = Inr c"
  shows "\<exists>s r. sky c = Inr (MSpectrum s) \<and>
           sky_subtract ar c True =
             ([LogWarning ''NIRSPEC data are already natively sky subtracted! Proceeding with a forced sky subtraction anyways...''],
              Inr r) \<and>
           length (flux s) = length (flux c) \<and> length (flux r) = length (flux c) \<and>
           (\<forall>i<length (flux c).
              flux r ! i = fsub (round64 ar) (flux c ! i) (flux s ! i)) \<and>
           meta r = meta c"
  using init_InrD [OF assms]
  by (auto simp: sky_subtract_def sky_def lookup_def subtract_def)

theorem forced_sky_subtract_witness:
  "KeckNIRSPECSpectrum_init ex_fs ex_file = Inr ex_spectrum \<and>
   map_sum id flux (snd (sky_subtract ex_arith ex_spectrum True)) = Inr [Fin 7, NaN, Fin 2]"
  using forced_sky_subtract [OF ex_init, of ex_arith] ex_init
  by (simp add: sky_subtract_def sky_def lookup_def subtract_def ex_spectrum_def ex_sky_def
      fsub_def ex_arith_def)

subsection \<open>Stitching\<close>

text \<open>C7, as stated for every list of spectra, fails on the empty list: \<^verbatim>\<open>np.hstack\<close> of
  no arrays raises \<^verbatim>\<open>ValueError\<close>.\<close>

theorem stitch_empty_raises: "snd (stitch []) = Inl ValueError"
  by (simp add: stitch_def hstack_def)

text \<open>C7, amended. For every non-empty list of spectra, \<^verbatim>\<open>stitch()\<close> returns a spectrum
  whose wavelengths are the concatenation of the wavelengths of the elements, in the order of
  the list, whose flux is the concatenation of their fluxes, whose lengths are the sums of
  the lengths, and which has no uncertainty, no mask, no coordinate system and empty
  metadata.\<close>

theorem stitch_concatenates:
  assumes "self \<noteq> []"
  shows "\<exists>r. snd (stitch self) = Inr r \<and>
             spectral_axis r = concat (map wavelength self) \<and>
             flux r = concat (map flux self) \<and>
             length (spectral_axis r) = sum_list (map (\<lambda>c. length (wavelength c)) self) \<and>
             length (flux r) = sum_list (map (\<lambda>c. length (flux c)) self) \<and>
             uncertainty r = None \<and> mask_array r = None \<and> wcs r = None \<and>
             meta r = Map.empty"
proof -
  have w: "map (\<lambda>i. wavelength (self ! i)) [0..<length self] = map wavelength self"
    by (rule nth_equalityI) simp_all
  have f: "map (\<lambda>i. flux (self ! i)) [0..<length self] = map flux self"
    by (rule nth_equalityI) simp_all
  from assms show ?thesis
    by (simp add: stitch_def hstack_def w f EchelleSpectrum_init_def length_concat comp_def)
qed

theorem stitch_concatenates_witness:
  "[ex_spectrum, ex_sky] \<noteq> [] \<and>
   map_sum id flux (snd (stitch [ex_spectrum, ex_sky])) =
     Inr [Fin 10, NaN, Fin 7, Fin 3, Fin 4, Fin 5] \<and>
   map_sum id spectral_axis (snd (stitch [ex_spectrum, ex_sky])) =
     Inr [Fin 21000, Fin 21001, Fin 21002, Fin 21000, Fin 21001, Fin 21002]"
proof -
  have h: "[ex_spectrum, ex_sky] \<noteq> []" by simp
  from stitch_concatenates [OF h] show ?thesis
    by (auto simp: wavelength_def ex_spectrum_def ex_sky_def)
qed

subsection \<open>The order number\<close>

lemma stem_at_least_three:
  assumes "take 3 b = ''NS.''"
  shows "3 \<le> length (split_first ''_flux'' b)"
proof -
  have "b = ''NS.'' @ drop 3 b"
    using append_take_drop_id [of 3 b] assms by simp
  then obtain rest where "b = ''NS.'' @ rest" ..
  then show ?thesis by simp
qed

lemma length_last_two: "2 \<le> length s \<Longrightarrow> length (last_two s) = 2"
  by (simp add: last_two_def)

lemma split_first_keeps_flux:
  assumes "prefix ''flux'' cs"
  shows "prefix ''flux'' (split_first ''_flux_tbl'' cs)"
proof -
  from assms obtain rest where "cs = ''flux'' @ rest"
    by (auto simp: prefix_def)
  then show ?thesis by simp
qed

lemma stem_before_flux_tbl:
  "\<not> contains ''_flux'' (split_first ''_flux_tbl'' b) \<Longrightarrow>
   split_first ''_flux'' b = split_first ''_flux_tbl'' b"
proof (induction b)
  case Nil
  then show ?case by simp
next
  case (Cons c cs)
  show ?case
  proof (cases "prefix ''_flux_tbl'' (c # cs)")
    case True
    then have "prefix ''_flux'' (c # cs)"
      by (auto simp: prefix_def)
    then have "split_first ''_flux'' (c # cs) = []"
      by (simp only: split_first.simps if_True)
    moreover from True have "split_first ''_flux_tbl'' (c # cs) = []"
      by (simp only: split_first.simps if_True)
    ultimately show ?thesis by (simp only: simp_thms)
  next
    case False
    then have sf: "split_first ''_flux_tbl'' (c # cs) = c # split_first ''_flux_tbl'' cs"
      by (simp only: split_first.simps if_False)
    from Cons.prems have "\<not> contains ''_flux'' (c # split_first ''_flux_tbl'' cs)"
      unfolding sf .
    then have np: "\<not> prefix ''_flux'' (c # split_first ''_flux_tbl'' cs)"
      and nc: "\<not> contains ''_flux'' (split_first ''_flux_tbl'' cs)"
      by (simp_all only: contains.simps de_Morgan_disj simp_thms)
    have "\<not> prefix ''_flux'' (c # cs)"
    proof
      assume "prefix ''_flux'' (c # cs)"
      then have "c = CHR ''_''" and "prefix ''flux'' cs"
        by (simp_all only: Cons_prefix_Cons)
      from split_first_keeps_flux [OF this(2)] \<open>c = CHR ''_''\<close>
      have "prefix ''_flux'' (c # split_first ''_flux_tbl'' cs)"
        by (simp only: Cons_prefix_Cons simp_thms)
      with np show False ..
    qed
    then have "split_first ''_flux'' (c # cs) = c # split_first ''_flux'' cs"
      by (simp only: split_first.simps if_False)
    with sf Cons.IH [OF nc] show ?thesis by (simp only: simp_thms)
  qed
qed

lemma digit_valueD:
  "digit_value a = Some x \<Longrightarrow>
   \<not> isspace a \<and> a \<noteq> CHR ''_'' \<and> a \<noteq> CHR ''-'' \<and> a \<noteq> CHR ''+''"
  by (auto simp: digit_value_def isspace_def split: if_splits)

lemma py_int_two_digits:
  assumes "digit_value a = Some x" and "digit_value b = Some y"
  shows "py_int [a, b] = Some (10 * x + y)"
  using assms digit_valueD [OF assms(1)] digit_valueD [OF assms(2)]
  by (simp add: py_int_def strip_def unsigned_int_def)

text \<open>C8, as stated, fails on a base name in which \<^verbatim>\<open>_flux\<close> occurs before
  \<^verbatim>\<open>_flux_tbl\<close>: the two characters before \<^verbatim>\<open>_flux_tbl\<close> are not a number, yet the
  construction succeeds, with the order number read before the first \<^verbatim>\<open>_flux\<close>.\<close>

theorem order_number_counterexample:
  "py_int (spec_order_chars ex_odd_file) = None \<and>
   map_sum id order_number (KeckNIRSPECSpectrum_init ex_odd_fs ex_odd_file) = Inr (Inr (MInt 12))"
  by (simp add: spec_order_chars_def ex_odd_file_def basename_def last_two_def py_int_def
      strip_def isspace_def unsigned_int_def digit_value_def KeckNIRSPECSpectrum_init_def
      Let_def ex_odd_fs_def EchelleSpectrum_init_def order_number_def lookup_def)

text \<open>C8, amended. The stem is the part of the base name before the first \<^verbatim>\<open>_flux\<close>. On a
  spectrum constructed from a file the stem ends in two characters that \<^verbatim>\<open>int\<close> reads, and
  \<^verbatim>\<open>m\<close> is the integer read; when \<^verbatim>\<open>int\<close> rejects the last two characters of the stem the
  construction fails; two decimal digits are read as the number they spell; and the stem is
  the part before \<^verbatim>\<open>_flux_tbl\<close> whenever that part contains no \<^verbatim>\<open>_flux\<close>.\<close>

theorem order_number_from_stem:
  "(KeckNIRSPECSpectrum_init fs file = Inr c \<longrightarrow>
      length (last_two (split_first ''_flux'' (basename file))) = 2 \<and>
      (\<exists>n. py_int (last_two (split_first ''_flux'' (basename file))) = Some n \<and>
           order_number c = Inr (MInt n))) \<and>
   (py_int (last_two (split_first ''_flux'' (basename file))) = None \<longrightarrow>
      (\<exists>e. KeckNIRSPECSpectrum_init fs file = Inl e)) \<and>
   (\<forall>a b x y. last_two (split_first ''_flux'' (basename file)) = [a, b] \<and>
        digit_value a = Some x \<and> digit_value b = Some y \<longrightarrow>
        py_int (last_two (split_first ''_flux'' (basename file))) = Some (10 * x + y)) \<and>
   (\<not> contains ''_flux'' (split_first ''_flux_tbl'' (basename file)) \<longrightarrow>
      split_first ''_flux'' (basename file) = split_first ''_flux_tbl'' (basename file))"
proof (intro conjI impI allI)
  assume c: "KeckNIRSPECSpectrum_init fs file = Inr c"
  then have "loadable fs file" using init_Inr_iff by blast
  then have "take 3 (basename file) = ''NS.''" by (simp add: loadable_def)
  from stem_at_least_three [OF this]
  show "length (last_two (split_first ''_flux'' (basename file))) = 2"
    by (intro length_last_two) simp
  from init_InrD [OF c]
  show "\<exists>n. py_int (last_two (split_first ''_flux'' (basename file))) = Some n \<and>
           order_number c = Inr (MInt n)"
    by (auto simp: order_number_def lookup_def)
next
  assume "py_int (last_two (split_first ''_flux'' (basename file))) = None"
  then have "\<not> loadable fs file" by (simp add: loadable_def)
  then have "\<nexists>c. KeckNIRSPECSpectrum_init fs file = Inr c"
    using init_Inr_iff by blast
  then show "\<exists>e. KeckNIRSPECSpectrum_init fs file = Inl e"
    by (cases "KeckNIRSPECSpectrum_init fs file") auto
next
  fix a b x y
  assume "last_two (split_first ''_flux'' (basename file)) = [a, b] \<and>
        digit_value a = Some x \<and> digit_value b = Some y"
  then show "py_int (last_two (split_first ''_flux'' (basename file))) = Some (10 * x + y)"
    using py_int_two_digits by simp
next
  assume "\<not> contains ''_flux'' (split_first ''_flux_tbl'' (basename file))"
  then show "split_first ''_flux'' (basename file) = split_first ''_flux_tbl'' (basename file)"
    by (rule stem_before_flux_tbl)
qed

theorem order_number_from_stem_witness:
  "KeckNIRSPECSpectrum_init ex_fs ex_file = Inr ex_spectrum \<and>
   order_number ex_spectrum = Inr (MInt 63) \<and>
   last_two (split_first ''_flux'' (basename ex_file)) = ''63'' \<and>
   digit_value CHR ''6'' = Some 6 \<and> digit_value CHR ''3'' = Some 3 \<and>
   \<not> contains ''_flux'' (split_first ''_flux_tbl'' (basename ex_file)) \<and>
   split_first ''_flux_tbl'' (basename ex_file) = ''NS.20150107.12345_63'' \<and>
   py_int (last_two (split_first ''_flux'' (basename ex_bad_file))) = None \<and>
   KeckNIRSPECSpectrum_init ex_fs ex_bad_file = Inl ValueError"
proof -
  have bad: "py_int (last_two (split_first ''_flux'' (basename ex_bad_file))) = None"
    by (simp add: ex_bad_file_def basename_def last_two_def py_int_def strip_def isspace_def
        unsigned_int_def digit_value_def)
  have bad_init: "KeckNIRSPECSpectrum_init ex_fs ex_bad_file = Inl ValueError"
    unfolding KeckNIRSPECSpectrum_init_def Let_def bad
    by (simp add: ex_bad_file_def basename_def)
  have tbl: "split_first ''_flux_tbl'' (basename ex_file) = ''NS.20150107.12345_63''"
    by (simp add: ex_file_def basename_def)
  have nc: "\<not> contains ''_flux'' (split_first ''_flux_tbl'' (basename ex_file))"
    unfolding tbl by simp
  have l2: "last_two (split_first ''_flux'' (basename ex_file)) = ''63''"
    by (simp add: ex_stem last_two_def)
  from order_number_from_stem [of ex_fs ex_file ex_spectrum] ex_init
  have "order_number ex_spectrum = Inr (MInt 63)"
    by (auto simp: ex_order)
  moreover from order_number_from_stem [of ex_fs ex_bad_file ex_spectrum] bad bad_init
  have "KeckNIRSPECSpectrum_init ex_fs ex_bad_file = Inl ValueError"
    by simp
  ultimately show ?thesis
    using ex_init bad tbl nc l2 by (simp add: digit_value_def)
qed

subsection \<open>Normalisation\<close>

















end
